theory Spec2Isabelle
  imports Main
begin

section \<open>The webhook handler of src/app/api/getgitcommit/route.ts\<close>

text \<open>
  The route is a single POST handler. It reads four environment values, looks at the
  \<^verbatim>\<open>X-GitHub-Event\<close> header and either fetches commit details from GitHub and forwards
  them to the Notion updater, lists the branches, or answers that the event is not
  supported.

  The embedding follows the source function by function. What lies outside the file is a
  parameter of the model:
  \<^item> the process environment is a record \<open>env\<close> of optional strings;
  \<^item> the remote servers and the clock are a record \<open>world\<close>: one oracle per call site of
    axios, giving for each request the answer of the server with its payload typed as the
    source annotates it, the value of \<^verbatim>\<open>Date.now()\<close>, and the order in which the
    concurrent detail fetches settle;
  \<^item> every outbound call is appended to the \<open>trace\<close> of the state, every
    \<^verbatim>\<open>console.error\<close> to its \<open>console\<close>;
  \<^item> a rejected promise is \<open>Inl e\<close>, a fulfilled one \<open>Inr v\<close>.
\<close>

subsection \<open>JavaScript values built by the handler\<close>

datatype jsval =
    Undefined
  | Null
  | Bool bool
  | Num int
  | Str string
  | Arr "jsval list"
  | Obj "(string \<times> jsval) list"

subsection \<open>Interfaces of the source\<close>

record CommitFile =
  filename :: string
  additions :: int
  deletions :: int
  changes :: int
  patch :: "string option"

record CommitAuthor =
  name :: string
  date :: string

record CommitInner =
  author :: CommitAuthor
  message :: string

record CommitDetail =
  sha :: string
  commit :: CommitInner
  files :: "CommitFile list"

text \<open>The element types of the two list endpoints, as the callbacks annotate them:
  \<^verbatim>\<open>(commit: { sha: string })\<close> and \<^verbatim>\<open>(branch: { name: string })\<close>.\<close>

datatype CommitStub = CommitStub (stub_sha: string)

datatype Branch = Branch (branch_name: string)

subsection \<open>Errors, requests, responses\<close>

record AxiosErrorResponse =
  status :: int
  statusText :: string

text \<open>What a promise can reject with: an axios error, with the HTTP response when the
  server answered; the \<^verbatim>\<open>RangeError\<close> of \<^verbatim>\<open>toISOString\<close> and of a response status out
  of range; the \<^verbatim>\<open>TypeError\<close> of a response that may not carry a body; any other thrown
  value.\<close>

datatype error =
    AxiosError "AxiosErrorResponse option"
  | RangeError
  | TypeError
  | OtherError string

datatype verb = GET | POST_verb

record request =
  req_verb :: verb
  req_url :: string
  req_headers :: "(string \<times> string) list"
  req_params :: "(string \<times> string) list"
  req_body :: "jsval option"

text \<open>The response object of the framework: the body it was given and its status.\<close>

datatype NextResponse = NextResponse (res_body: jsval) (res_status: int)

text \<open>\<^verbatim>\<open>NextResponse.json(body, { status })\<close> builds the response through the
  \<^verbatim>\<open>Response\<close> constructor of the Fetch standard, which throws: a \<^verbatim>\<open>RangeError\<close> for a
  status outside 200..599, and a \<^verbatim>\<open>TypeError\<close> for a body given together with a status
  that allows none (204, 205 and 304; the other two, 101 and 103, are out of range
  already). Every call of the handler passes a body.\<close>

definition NextResponse_json :: "jsval \<Rightarrow> int \<Rightarrow> error + NextResponse" where
  "NextResponse_json body code =
     (if code < 200 \<or> 599 < code then Inl RangeError
      else if code = 204 \<or> code = 205 \<or> code = 304 then Inl TypeError
      else Inr (NextResponse body code))"

record NextRequest =
  headers_get :: "string \<Rightarrow> string option"

record env =
  GITHUB_REPO_OWNER :: "string option"
  GITHUB_REPO_NAME :: "string option"
  GITHUB_TOKEN :: "string option"
  BASE_URL :: "string option"

record world =
  Date_now :: int
  github_commits :: "request \<Rightarrow> error + CommitStub list"
  github_branches :: "request \<Rightarrow> error + Branch list"
  github_commit :: "request \<Rightarrow> error + CommitDetail"
  notion :: "request \<Rightarrow> error + jsval"
  completion :: "nat list"

record state =
  trace :: "request list"
  console :: "error list"

definition issue :: "request \<Rightarrow> state \<Rightarrow> state" where
  "issue rq st = st\<lparr>trace := trace st @ [rq]\<rparr>"

definition console_error :: "error \<Rightarrow> state \<Rightarrow> state" where
  "console_error e st = st\<lparr>console := console st @ [e]\<rparr>"

subsection \<open>JavaScript built-ins the source relies on\<close>

text \<open>A template literal \<^verbatim>\<open>`${x}`\<close> prints an undefined \<open>x\<close> as the text "undefined".\<close>

definition template :: "string option \<Rightarrow> string" where
  "template x = (case x of None \<Rightarrow> ''undefined'' | Some s \<Rightarrow> s)"

text \<open>\<^verbatim>\<open>!x\<close> for a value that is a string or undefined: true for undefined and for the
  empty string.\<close>

definition falsy :: "string option \<Rightarrow> bool" where
  "falsy x = (case x of None \<Rightarrow> True | Some s \<Rightarrow> s = [])"

text \<open>\<^verbatim>\<open>Promise.all\<close>: fulfilled with the values in input order when every promise is
  fulfilled, rejected with the reason of the promise that rejects first. The order in
  which the promises settle is the list \<open>order\<close> of their indices; an index it leaves out
  settles after those it names, in input order.\<close>

definition Promise_all :: "nat list \<Rightarrow> (error + 'a) list \<Rightarrow> error + 'a list" where
  "Promise_all order ps =
     (case List.find (\<lambda>i. i < length ps \<and> isl (ps ! i)) (order @ [0..<length ps]) of
        Some i \<Rightarrow> Inl (projl (ps ! i))
      | None \<Rightarrow> Inr (map projr ps))"

text \<open>\<^verbatim>\<open>Date.prototype.toISOString\<close>: the UTC fields of a time value in milliseconds
  since the epoch, printed as \<^verbatim>\<open>YYYY-MM-DDTHH:mm:ss.sssZ\<close> (a year outside 0..9999 with a
  sign and six digits); a \<^verbatim>\<open>RangeError\<close> for a time value beyond 8.64e15 ms, which
  \<^verbatim>\<open>new Date\<close> turns into an invalid date.\<close>

fun digits :: "nat \<Rightarrow> int \<Rightarrow> string" where
  "digits 0 n = []"
| "digits (Suc k) n = digits k (n div 10) @ [''0123456789'' ! nat (n mod 10)]"

text \<open>Year, month and day of a day number counted from 1970-01-01, in the proleptic
  Gregorian calendar (eras of 400 years starting on 1 March).\<close>

definition civil_from_days :: "int \<Rightarrow> int \<times> int \<times> int" where
  "civil_from_days z =
     (let z1 = z + 719468;
          era = z1 div 146097;
          doe = z1 mod 146097;
          yoe = (doe - doe div 1460 + doe div 36524 - doe div 146096) div 365;
          doy = doe - (365 * yoe + yoe div 4 - yoe div 100);
          mp = (5 * doy + 2) div 153;
          d = doy - (153 * mp + 2) div 5 + 1;
          m = (if mp < 10 then mp + 3 else mp - 9);
          y = yoe + era * 400 + (if m \<le> 2 then 1 else 0)
      in (y, m, d))"

definition year_string :: "int \<Rightarrow> string" where
  "year_string y =
     (if 0 \<le> y \<and> y \<le> 9999 then digits 4 y
      else (if y < 0 then ''-'' else ''+'') @ digits 6 \<bar>y\<bar>)"

definition toISOString :: "int \<Rightarrow> error + string" where
  "toISOString t =
     (if \<bar>t\<bar> > 8640000000000000 then Inl RangeError
      else
        let ms = t mod 86400000;
            (y, m, d) = civil_from_days (t div 86400000)
        in Inr (year_string y @ ''-'' @ digits 2 m @ ''-'' @ digits 2 d @ ''T''
                @ digits 2 (ms div 3600000) @ '':'' @ digits 2 (ms div 60000 mod 60) @ '':''
                @ digits 2 (ms div 1000 mod 60) @ ''.'' @ digits 3 (ms mod 1000) @ ''Z''))"

subsection \<open>Module constants\<close>

definition owner :: "env \<Rightarrow> string option" where
  "owner e = GITHUB_REPO_OWNER e"

definition repo :: "env \<Rightarrow> string option" where
  "repo e = GITHUB_REPO_NAME e"

definition githubToken :: "env \<Rightarrow> string option" where
  "githubToken e = GITHUB_TOKEN e"

definition notionUpdateApiUrl :: "env \<Rightarrow> string" where
  "notionUpdateApiUrl e = template (BASE_URL e) @ ''/api/updatenotioncalendar''"

subsection \<open>getISOTimeFiveMinutesAgo\<close>

definition getISOTimeFiveMinutesAgo :: "world \<Rightarrow> error + string" where
  "getISOTimeFiveMinutesAgo w = toISOString (Date_now w - 5 * 60 * 1000)"

subsection \<open>getCommit\<close>

definition authorization :: "env \<Rightarrow> (string \<times> string) list" where
  "authorization e = [(''Authorization'', ''Bearer '' @ template (githubToken e))]"

definition commitListRequest :: "env \<Rightarrow> string \<Rightarrow> request" where
  "commitListRequest e since =
     \<lparr>req_verb = GET,
      req_url = ''https://api.github.com/repos/'' @ template (owner e) @ ''/''
                @ template (repo e) @ ''/commits'',
      req_headers = authorization e,
      req_params = [(''since'', since)],
      req_body = None\<rparr>"

definition branchesRequest :: "env \<Rightarrow> request" where
  "branchesRequest e =
     \<lparr>req_verb = GET,
      req_url = ''https://api.github.com/repos/'' @ template (owner e) @ ''/''
                @ template (repo e) @ ''/branches'',
      req_headers = authorization e,
      req_params = [],
      req_body = None\<rparr>"

definition commitDetailRequest :: "env \<Rightarrow> CommitStub \<Rightarrow> request" where
  "commitDetailRequest e c =
     \<lparr>req_verb = GET,
      req_url = ''https://api.github.com/repos/'' @ template (owner e) @ ''/''
                @ template (repo e) @ ''/commits/'' @ stub_sha c,
      req_headers = authorization e,
      req_params = [],
      req_body = None\<rparr>"

definition formatFile :: "CommitFile \<Rightarrow> jsval" where
  "formatFile file =
     Obj [(''filename'', Str (filename file)),
          (''additions'', Num (additions file)),
          (''deletions'', Num (deletions file)),
          (''changes'', Num (changes file)),
          (''patch'', (case patch file of None \<Rightarrow> Undefined | Some p \<Rightarrow> Str p))]"

definition formatCommit :: "CommitDetail \<Rightarrow> jsval" where
  "formatCommit d =
     Obj [(''sha'', Str (sha d)),
          (''author'', Str (name (author (commit d)))),
          (''date'', Str (date (author (commit d)))),
          (''message'', Str (message (commit d))),
          (''files'', Arr (map formatFile (files d)))]"

text \<open>The callback of \<^verbatim>\<open>commits.map\<close>: one detail fetch, formatted.\<close>

definition fetchDetail :: "env \<Rightarrow> world \<Rightarrow> CommitStub \<Rightarrow> error + jsval" where
  "fetchDetail e w c =
     (case github_commit w (commitDetailRequest e c) of
        Inl err \<Rightarrow> Inl err
      | Inr d \<Rightarrow> Inr (formatCommit d))"

text \<open>The \<^verbatim>\<open>catch\<close> block of getCommit: log, then throw again.\<close>

definition rethrow :: "error \<Rightarrow> state \<Rightarrow> (error + jsval) \<times> state" where
  "rethrow err st = (Inl err, console_error err st)"

definition getCommit :: "env \<Rightarrow> world \<Rightarrow> bool \<Rightarrow> state \<Rightarrow> (error + jsval) \<times> state" where
  "getCommit e w includeDetails st =
     (case getISOTimeFiveMinutesAgo w of
        Inl err \<Rightarrow> rethrow err st
      | Inr since \<Rightarrow>
          let st1 = issue (commitListRequest e since) st in
          (case github_commits w (commitListRequest e since) of
             Inl err \<Rightarrow> rethrow err st1
           | Inr commits \<Rightarrow>
               if \<not> includeDetails then
                 let st2 = issue (branchesRequest e) st1 in
                 (case github_branches w (branchesRequest e) of
                    Inl err \<Rightarrow> rethrow err st2
                  | Inr bs \<Rightarrow> (Inr (Obj [(''branches'', Arr (map (\<lambda>b. Str (branch_name b)) bs))]), st2))
               else
                 let st2 = st1\<lparr>trace := trace st1 @ map (commitDetailRequest e) commits\<rparr> in
                 (case Promise_all (completion w) (map (fetchDetail e w) commits) of
                    Inl err \<Rightarrow> rethrow err st2
                  | Inr commitDetails \<Rightarrow> (Inr (Arr commitDetails), st2))))"

subsection \<open>updateCommit\<close>

definition notionRequest :: "env \<Rightarrow> jsval \<Rightarrow> request" where
  "notionRequest e commitDetails =
     \<lparr>req_verb = POST_verb,
      req_url = notionUpdateApiUrl e,
      req_headers = [(''Content-Type'', ''application/json'')],
      req_params = [],
      req_body = Some commitDetails\<rparr>"

text \<open>The \<^verbatim>\<open>catch\<close> block of updateCommit. A throw of \<^verbatim>\<open>NextResponse.json\<close> in it is not
  caught by anything: it rejects the promise of updateCommit.\<close>

definition updateCommit_catch :: "error \<Rightarrow> error + NextResponse" where
  "updateCommit_catch err =
     (case err of
        AxiosError (Some response) \<Rightarrow>
          NextResponse_json (Obj [(''error'', Str (statusText response))]) (status response)
      | _ \<Rightarrow>
          NextResponse_json (Obj [(''error'', Str ''Internal Server Error'')]) 500)"

definition updateCommit ::
  "env \<Rightarrow> world \<Rightarrow> jsval \<Rightarrow> state \<Rightarrow> (error + NextResponse) \<times> state" where
  "updateCommit e w commitDetails st =
     (let st1 = issue (notionRequest e commitDetails) st in
      (case notion w (notionRequest e commitDetails) of
         Inl err \<Rightarrow> (updateCommit_catch err, st1)
       | Inr data \<Rightarrow>
           (case NextResponse_json
                   (Obj [(''message'', Str ''Commits processed and sent to Notion API''),
                         (''notionResponse'', data),
                         (''commits'', commitDetails)]) 200 of
              Inl err \<Rightarrow> (updateCommit_catch err, st1)
            | Inr res \<Rightarrow> (Inr res, st1))))"

subsection \<open>POST\<close>

definition POST :: "env \<Rightarrow> world \<Rightarrow> NextRequest \<Rightarrow> state \<Rightarrow> (error + NextResponse) \<times> state" where
  "POST e w req st =
     (if falsy (owner e) \<or> falsy (repo e) \<or> falsy (githubToken e) \<or> notionUpdateApiUrl e = []
      then (NextResponse_json
              (Obj [(''error'', Str ''Environment variables not set correctly.'')]) 500, st)
      else
        let eventType = headers_get req ''X-GitHub-Event'' in
        if eventType = Some ''push'' then
          (case getCommit e w True st of
             (Inl err, st1) \<Rightarrow> (Inl err, st1)
           | (Inr commitDetails, st1) \<Rightarrow> updateCommit e w commitDetails st1)
        else if eventType = Some ''getBranch'' then
          (case getCommit e w False st of
             (Inl err, st1) \<Rightarrow> (Inl err, st1)
           | (Inr branchDetails, st1) \<Rightarrow> (NextResponse_json branchDetails 200, st1))
        else (NextResponse_json (Obj [(''message'', Str ''Event not supported'')]) 400, st))"

section \<open>Example inputs\<close>

text \<open>A configured environment, the same environment without \<^verbatim>\<open>BASE_URL\<close>, a request
  carrying a given event header, and a world in which GitHub lists two commits and two
  branches and the Notion updater accepts the payload. The clock reads 2023-11-14
  22:18:20 UTC; the second detail fetch settles before the first.\<close>

definition env_ok :: env where
  "env_ok =
     \<lparr>GITHUB_REPO_OWNER = Some ''octo'',
      GITHUB_REPO_NAME = Some ''calendar'',
      GITHUB_TOKEN = Some ''t0ken'',
      BASE_URL = Some ''https://app.example''\<rparr>"

definition env_no_base :: env where
  "env_no_base = env_ok\<lparr>BASE_URL := None\<rparr>"

definition event_request :: "string option \<Rightarrow> NextRequest" where
  "event_request v = \<lparr>headers_get = (\<lambda>h. if h = ''X-GitHub-Event'' then v else None)\<rparr>"

definition detail_a1 :: CommitDetail where
  "detail_a1 =
     \<lparr>sha = ''a1'',
      commit = \<lparr>author = \<lparr>name = ''Ada'', date = ''2023-11-14T22:15:00Z''\<rparr>,
                message = ''fix calendar''\<rparr>,
      files = [\<lparr>filename = ''a.ts'', additions = 3, deletions = 1, changes = 4,
                 patch = Some ''@@ -1 +1 @@''\<rparr>]\<rparr>"

definition detail_b2 :: CommitDetail where
  "detail_b2 =
     \<lparr>sha = ''b2'',
      commit = \<lparr>author = \<lparr>name = ''Bob'', date = ''2023-11-14T22:16:00Z''\<rparr>,
                message = ''add image''\<rparr>,
      files = [\<lparr>filename = ''b.png'', additions = 0, deletions = 0, changes = 0,
                 patch = None\<rparr>]\<rparr>"

definition not_found :: error where
  "not_found = AxiosError (Some \<lparr>status = 404, statusText = ''Not Found''\<rparr>)"

definition too_many :: error where
  "too_many = AxiosError (Some \<lparr>status = 429, statusText = ''Too Many Requests''\<rparr>)"

definition world_ok :: world where
  "world_ok =
     \<lparr>Date_now = 1700000300000,
      github_commits = (\<lambda>rq. Inr [CommitStub ''a1'', CommitStub ''b2'']),
      github_branches = (\<lambda>rq. Inr [Branch ''main'', Branch ''dev'']),
      github_commit =
        (\<lambda>rq. if req_url rq = ''https://api.github.com/repos/octo/calendar/commits/a1''
              then Inr detail_a1
              else if req_url rq = ''https://api.github.com/repos/octo/calendar/commits/b2''
              then Inr detail_b2
              else Inl not_found),
      notion = (\<lambda>rq. Inr (Obj [(''ok'', Bool True)])),
      completion = [1, 0]\<rparr>"

definition state0 :: state where
  "state0 = \<lparr>trace = [], console = []\<rparr>"

definition details_ok :: "CommitStub \<Rightarrow> CommitDetail" where
  "details_ok c = (if stub_sha c = ''a1'' then detail_a1 else detail_b2)"

definition world_list_down :: world where
  "world_list_down = world_ok\<lparr>github_commits := (\<lambda>rq. Inl (AxiosError None))\<rparr>"

definition world_detail_missing :: world where
  "world_detail_missing =
     world_ok\<lparr>github_commits :=
                 (\<lambda>rq. Inr [CommitStub ''a1'', CommitStub ''zz'', CommitStub ''b2''])\<rparr>"

definition world_rate_limited :: world where
  "world_rate_limited = world_ok\<lparr>notion := (\<lambda>rq. Inl too_many)\<rparr>"

definition world_notion_unreachable :: world where
  "world_notion_unreachable = world_ok\<lparr>notion := (\<lambda>rq. Inl (AxiosError None))\<rparr>"

definition world_not_modified :: world where
  "world_not_modified =
     world_ok\<lparr>notion :=
                 (\<lambda>rq. Inl (AxiosError (Some \<lparr>status = 304, statusText = ''Not Modified''\<rparr>)))\<rparr>"

definition world_status_600 :: world where
  "world_status_600 =
     world_ok\<lparr>notion :=
                 (\<lambda>rq. Inl (AxiosError (Some \<lparr>status = 600, statusText = ''Unknown''\<rparr>)))\<rparr>"

definition world_other_commits :: world where
  "world_other_commits = world_ok\<lparr>github_commits := (\<lambda>rq. Inr [CommitStub ''zz''])\<rparr>"

section \<open>Properties\<close>

subsection \<open>NextResponse.json\<close>

lemma NextResponse_json_accepts:
  assumes "200 \<le> code" "code \<le> 599" "code \<noteq> 204" "code \<noteq> 205" "code \<noteq> 304"
  shows "NextResponse_json body code = Inr (NextResponse body code)"
  using assms by (simp add: NextResponse_json_def)

lemma NextResponse_json_literal:
  "NextResponse_json body 200 = Inr (NextResponse body 200)"
  "NextResponse_json body 400 = Inr (NextResponse body 400)"
  "NextResponse_json body 500 = Inr (NextResponse body 500)"
  by (simp_all add: NextResponse_json_def)

lemma NextResponse_json_throws:
  "code < 200 \<or> 599 < code \<Longrightarrow> NextResponse_json body code = Inl RangeError"
  "code = 204 \<or> code = 205 \<or> code = 304 \<Longrightarrow> NextResponse_json body code = Inl TypeError"
  by (auto simp: NextResponse_json_def)

subsection \<open>The configuration gate\<close>

lemma notionUpdateApiUrl_nonempty: "notionUpdateApiUrl e \<noteq> []"
  by (simp add: notionUpdateApiUrl_def)

lemma POST_misconfigured:
  assumes "falsy (owner e) \<or> falsy (repo e) \<or> falsy (githubToken e)"
  shows "POST e w req st =
    (Inr (NextResponse
            (Obj [(''error'', Str ''Environment variables not set correctly.'')]) 500), st)"
  using assms by (auto simp: POST_def NextResponse_json_literal)

lemma POST_configured:
  assumes "\<not> falsy (owner e)" "\<not> falsy (repo e)" "\<not> falsy (githubToken e)"
  shows "POST e w req st =
    (if headers_get req ''X-GitHub-Event'' = Some ''push'' then
       (case getCommit e w True st of
          (Inl err, st1) \<Rightarrow> (Inl err, st1)
        | (Inr commitDetails, st1) \<Rightarrow> updateCommit e w commitDetails st1)
     else if headers_get req ''X-GitHub-Event'' = Some ''getBranch'' then
       (case getCommit e w False st of
          (Inl err, st1) \<Rightarrow> (Inl err, st1)
        | (Inr branchDetails, st1) \<Rightarrow> (Inr (NextResponse branchDetails 200), st1))
     else (Inr (NextResponse (Obj [(''message'', Str ''Event not supported'')]) 400), st))"
  using assms unfolding POST_def NextResponse_json_literal
  by (simp add: notionUpdateApiUrl_nonempty)

subsection \<open>Promise.all\<close>

lemma Promise_all_fulfilled:
  assumes "\<forall>p \<in> set ps. \<not> isl p"
  shows "Promise_all order ps = Inr (map projr ps)"
proof -
  have "List.find (\<lambda>i. i < length ps \<and> isl (ps ! i)) (order @ [0..<length ps]) = None"
    using assms by (auto simp: find_None_iff)
  then show ?thesis by (simp add: Promise_all_def)
qed

lemma Promise_all_rejected:
  assumes "k < length ps" "isl (ps ! k)"
  shows "\<exists>i < length ps. isl (ps ! i) \<and> Promise_all order ps = Inl (projl (ps ! i))"
proof -
  let ?P = "\<lambda>i. i < length ps \<and> isl (ps ! i)"
  have "k \<in> set (order @ [0..<length ps])" using assms by simp
  then have "List.find ?P (order @ [0..<length ps]) \<noteq> None"
    using assms unfolding find_None_iff by blast
  then obtain i where f: "List.find ?P (order @ [0..<length ps]) = Some i"
    by blast
  then have "i < length ps \<and> isl (ps ! i)"
    by (auto simp: find_Some_iff)
  with f show ?thesis by (auto simp: Promise_all_def)
qed

subsection \<open>The trace of outbound calls\<close>

lemma trace_issue: "trace (issue rq st) = trace st @ [rq]"
  by (simp add: issue_def)

lemma trace_console_error: "trace (console_error err st) = trace st"
  by (simp add: console_error_def)

lemma updateCommit_state:
  "snd (updateCommit e w commitDetails st) = issue (notionRequest e commitDetails) st"
  by (simp add: updateCommit_def Let_def split: sum.splits)

lemma getCommit_first_call:
  assumes "getISOTimeFiveMinutesAgo w = Inr since"
  shows "\<exists>rest. trace (snd (getCommit e w includeDetails st))
           = trace st @ commitListRequest e since # rest"
  using assms
  by (simp add: getCommit_def Let_def rethrow_def trace_issue trace_console_error
      split: sum.splits)

lemma getCommit_no_clock:
  assumes "getISOTimeFiveMinutesAgo w = Inl err"
  shows "getCommit e w includeDetails st = (Inl err, console_error err st)"
  using assms by (simp add: getCommit_def rethrow_def)

subsection \<open>getCommit\<close>

lemma getISOTimeFiveMinutesAgo_completion:
  "getISOTimeFiveMinutesAgo (w\<lparr>completion := order\<rparr>) = getISOTimeFiveMinutesAgo w"
  by (simp add: getISOTimeFiveMinutesAgo_def)

lemma getCommit_details_ok:
  assumes "getISOTimeFiveMinutesAgo w = Inr since"
    and "github_commits w (commitListRequest e since) = Inr commits"
    and "\<forall>c \<in> set commits. github_commit w (commitDetailRequest e c) = Inr (details c)"
  shows "getCommit e w True st =
     (Inr (Arr (map (\<lambda>c. formatCommit (details c)) commits)),
      st\<lparr>trace := trace st @ commitListRequest e since # map (commitDetailRequest e) commits\<rparr>)"
proof -
  have f: "\<forall>c \<in> set commits. fetchDetail e w c = Inr (formatCommit (details c))"
    using assms(3) by (simp add: fetchDetail_def)
  then have "\<forall>p \<in> set (map (fetchDetail e w) commits). \<not> isl p" by auto
  then have "Promise_all (completion w) (map (fetchDetail e w) commits)
      = Inr (map projr (map (fetchDetail e w) commits))"
    by (rule Promise_all_fulfilled)
  also have "map projr (map (fetchDetail e w) commits) = map (\<lambda>c. formatCommit (details c)) commits"
    using f by simp
  finally show ?thesis
    using assms(1,2) by (simp add: getCommit_def issue_def)
qed

lemma isl_fetchDetail:
  "isl (fetchDetail e w c) = isl (github_commit w (commitDetailRequest e c))"
  by (simp add: fetchDetail_def split: sum.splits)

lemma projl_fetchDetail:
  "isl (github_commit w (commitDetailRequest e c)) \<Longrightarrow>
   projl (fetchDetail e w c) = projl (github_commit w (commitDetailRequest e c))"
  by (cases "github_commit w (commitDetailRequest e c)") (simp_all add: fetchDetail_def)

lemma getCommit_list_rejected:
  assumes "getISOTimeFiveMinutesAgo w = Inr since"
    and "github_commits w (commitListRequest e since) = Inl err"
  shows "getCommit e w includeDetails st =
     (Inl err, console_error err (issue (commitListRequest e since) st))"
  using assms by (simp add: getCommit_def rethrow_def)

lemma getCommit_detail_rejected:
  assumes "getISOTimeFiveMinutesAgo w = Inr since"
    and "github_commits w (commitListRequest e since) = Inr commits"
    and "c0 \<in> set commits" "isl (github_commit w (commitDetailRequest e c0))"
  shows "\<exists>c \<in> set commits. \<exists>err.
           github_commit w (commitDetailRequest e c) = Inl err
         \<and> getCommit e w True st =
             (Inl err, console_error err
                (st\<lparr>trace := trace st @ commitListRequest e since
                                  # map (commitDetailRequest e) commits\<rparr>))"
proof -
  let ?ps = "map (fetchDetail e w) commits"
  obtain k where k: "k < length commits" "commits ! k = c0"
    using assms(3) by (auto simp: in_set_conv_nth)
  then have "k < length ?ps" "isl (?ps ! k)"
    using assms(4) by (simp_all add: isl_fetchDetail)
  from Promise_all_rejected[OF this, of "completion w"]
  obtain i where i: "i < length ?ps" "isl (?ps ! i)"
    "Promise_all (completion w) ?ps = Inl (projl (?ps ! i))"
    by blast
  let ?c = "commits ! i"
  let ?err = "projl (github_commit w (commitDetailRequest e ?c))"
  have il: "isl (github_commit w (commitDetailRequest e ?c))"
    using i(1,2) by (simp add: isl_fetchDetail)
  then have e1: "github_commit w (commitDetailRequest e ?c) = Inl ?err"
    by (cases "github_commit w (commitDetailRequest e ?c)") simp_all
  have "Promise_all (completion w) ?ps = Inl ?err"
    using i il by (simp add: projl_fetchDetail)
  then have "getCommit e w True st =
      (Inl ?err, console_error ?err
         (st\<lparr>trace := trace st @ commitListRequest e since
                           # map (commitDetailRequest e) commits\<rparr>))"
    using assms(1,2) by (simp add: getCommit_def rethrow_def issue_def)
  moreover have "?c \<in> set commits" using i(1) by simp
  ultimately show ?thesis using e1 by blast
qed

lemma getCommit_branches:
  assumes "getISOTimeFiveMinutesAgo w = Inr since"
    and "github_commits w (commitListRequest e since) = Inr commits"
  shows "getCommit e w False st =
     (case github_branches w (branchesRequest e) of
        Inl err \<Rightarrow>
          (Inl err, console_error err
             (st\<lparr>trace := trace st @ [commitListRequest e since, branchesRequest e]\<rparr>))
      | Inr bs \<Rightarrow>
          (Inr (Obj [(''branches'', Arr (map (\<lambda>b. Str (branch_name b)) bs))]),
           st\<lparr>trace := trace st @ [commitListRequest e since, branchesRequest e]\<rparr>))"
  using assms by (simp add: getCommit_def rethrow_def issue_def split: sum.splits)

subsection \<open>POST after the gate\<close>

lemma POST_push:
  assumes "\<not> falsy (owner e)" "\<not> falsy (repo e)" "\<not> falsy (githubToken e)"
    and "headers_get req ''X-GitHub-Event'' = Some ''push''"
    and "getCommit e w True st = (Inr commitDetails, st1)"
  shows "POST e w req st =
     (fst (updateCommit e w commitDetails st1), issue (notionRequest e commitDetails) st1)"
  using assms(4,5) updateCommit_state[of e w commitDetails st1]
  by (cases "updateCommit e w commitDetails st1") (simp add: POST_configured[OF assms(1-3)])

lemma POST_push_rejected:
  assumes "\<not> falsy (owner e)" "\<not> falsy (repo e)" "\<not> falsy (githubToken e)"
    and "headers_get req ''X-GitHub-Event'' = Some ''push''"
    and "getCommit e w True st = (Inl err, st1)"
  shows "POST e w req st = (Inl err, st1)"
  using assms(4,5) by (simp add: POST_configured[OF assms(1-3)])

lemma POST_first_call:
  assumes "\<not> falsy (owner e)" "\<not> falsy (repo e)" "\<not> falsy (githubToken e)"
    and "headers_get req ''X-GitHub-Event'' = Some ''push''
         \<or> headers_get req ''X-GitHub-Event'' = Some ''getBranch''"
    and "getISOTimeFiveMinutesAgo w = Inr since"
  shows "\<exists>rest. trace (snd (POST e w req st)) = trace st @ commitListRequest e since # rest"
proof -
  obtain r1 where r1: "trace (snd (getCommit e w True st)) = trace st @ commitListRequest e since # r1"
    using getCommit_first_call[OF assms(5)] by blast
  obtain r2 where r2: "trace (snd (getCommit e w False st)) = trace st @ commitListRequest e since # r2"
    using getCommit_first_call[OF assms(5)] by blast
  show ?thesis
  proof (cases "headers_get req ''X-GitHub-Event'' = Some ''push''")
    case True
    show ?thesis
    proof (cases "getCommit e w True st")
      case (Pair r st1)
      then have t: "trace st1 = trace st @ commitListRequest e since # r1" using r1 by simp
      show ?thesis
      proof (cases r)
        case (Inl err)
        then show ?thesis using True Pair t by (simp add: POST_configured[OF assms(1-3)])
      next
        case (Inr cd)
        have "snd (POST e w req st) = snd (updateCommit e w cd st1)"
          using True Pair Inr by (simp add: POST_configured[OF assms(1-3)])
        then show ?thesis using t by (simp add: updateCommit_state trace_issue)
      qed
    qed
  next
    case False
    then have gb: "headers_get req ''X-GitHub-Event'' = Some ''getBranch''" using assms(4) by simp
    show ?thesis
    proof (cases "getCommit e w False st")
      case (Pair r st1)
      then have t: "trace st1 = trace st @ commitListRequest e since # r2" using r2 by simp
      show ?thesis using gb Pair t
        by (cases r) (simp_all add: POST_configured[OF assms(1-3)])
    qed
  qed
qed

lemma POST_not_short_circuit:
  assumes "\<not> falsy (owner e)" "\<not> falsy (repo e)" "\<not> falsy (githubToken e)"
  shows "POST e w req st \<noteq>
    (Inr (NextResponse
            (Obj [(''error'', Str ''Environment variables not set correctly.'')]) 500), st)"
proof
  assume eq: "POST e w req st =
    (Inr (NextResponse
            (Obj [(''error'', Str ''Environment variables not set correctly.'')]) 500), st)"
  show False
  proof (cases "headers_get req ''X-GitHub-Event'' = Some ''push''")
    case True
    show False
    proof (cases "getISOTimeFiveMinutesAgo w")
      case (Inl err)
      then show False using eq True
        by (simp add: POST_configured[OF assms] getCommit_no_clock)
    next
      case (Inr since)
      from POST_first_call[OF assms _ Inr, of req st] True
      obtain rest where "trace (snd (POST e w req st)) = trace st @ commitListRequest e since # rest"
        by blast
      then show False using eq by simp
    qed
  next
    case False
    then show False using eq
      by (simp add: POST_configured[OF assms] split: if_splits prod.splits sum.splits)
  qed
qed

subsection \<open>toISOString\<close>

text \<open>The function is total on the time values a \<^verbatim>\<open>Date\<close> can hold, and its result has
  the fields of \<^verbatim>\<open>YYYY-MM-DDTHH:mm:ss.sssZ\<close> at fixed widths.\<close>

lemma length_digits: "length (digits k n) = k"
  by (induction k arbitrary: n) simp_all

lemma toISOString_total:
  "\<bar>t\<bar> \<le> 8640000000000000 \<Longrightarrow> \<exists>s. toISOString t = Inr s"
  by (simp add: toISOString_def Let_def split: prod.splits)

lemma toISOString_shape:
  assumes "toISOString t = Inr s"
  shows "\<exists>Y M D h m sec ms.
           s = Y @ ''-'' @ M @ ''-'' @ D @ ''T'' @ h @ '':'' @ m @ '':'' @ sec @ ''.'' @ ms @ ''Z''
         \<and> (length Y = 4 \<or> length Y = 7)
         \<and> length M = 2 \<and> length D = 2 \<and> length h = 2 \<and> length m = 2 \<and> length sec = 2
         \<and> length ms = 3"
proof -
  obtain y mo d where c: "civil_from_days (t div 86400000) = (y, mo, d)"
    by (cases "civil_from_days (t div 86400000)") auto
  let ?ms = "t mod 86400000"
  have s: "s = year_string y @ ''-'' @ digits 2 mo @ ''-'' @ digits 2 d @ ''T''
                @ digits 2 (?ms div 3600000) @ '':'' @ digits 2 (?ms div 60000 mod 60) @ '':''
                @ digits 2 (?ms div 1000 mod 60) @ ''.'' @ digits 3 (?ms mod 1000) @ ''Z''"
    using assms c by (simp add: toISOString_def Let_def split: if_splits)
  have y: "length (year_string y) = 4 \<or> length (year_string y) = 7"
    by (simp add: year_string_def length_digits)
  show ?thesis
    using s y by (blast intro: length_digits)
qed

text \<open>The model against dates whose ISO form is known: the epoch and the millisecond
  before it, leap days of 2000 and 2024, the missing leap day of 2100, the first year of
  five digits, a year before 0, and the two ends of the range of \<^verbatim>\<open>Date\<close>.\<close>

lemma digits_numeral:
  "digits (numeral k) n = digits (pred_numeral k) (n div 10) @ [''0123456789'' ! nat (n mod 10)]"
  by (simp add: numeral_eq_Suc)

lemma civil_from_days_known:
  "civil_from_days 0 = (1970, 1, 1)"
  "civil_from_days (- 1) = (1969, 12, 31)"
  "civil_from_days 11016 = (2000, 2, 29)"
  "civil_from_days 19782 = (2024, 2, 29)"
  "civil_from_days 47540 = (2100, 2, 28)"
  "civil_from_days 47541 = (2100, 3, 1)"
  "civil_from_days 2932897 = (10000, 1, 1)"
  "civil_from_days (- 719529) = (- 1, 12, 31)"
  "civil_from_days 100000000 = (275760, 9, 13)"
  "civil_from_days (- 100000000) = (- 271821, 4, 20)"
  unfolding civil_from_days_def by (simp only: Let_def, simp)+

lemma toISOString_known_dates:
  "toISOString 0 = Inr ''1970-01-01T00:00:00.000Z''"
  "toISOString (- 1) = Inr ''1969-12-31T23:59:59.999Z''"
  "toISOString 951782400000 = Inr ''2000-02-29T00:00:00.000Z''"
  "toISOString 1709251199999 = Inr ''2024-02-29T23:59:59.999Z''"
  "toISOString 4107542399999 = Inr ''2100-02-28T23:59:59.999Z''"
  "toISOString 4107542400000 = Inr ''2100-03-01T00:00:00.000Z''"
  "toISOString 253402300800000 = Inr ''+010000-01-01T00:00:00.000Z''"
  "toISOString (- 62167219200001) = Inr ''-000001-12-31T23:59:59.999Z''"
  "toISOString 8640000000000000 = Inr ''+275760-09-13T00:00:00.000Z''"
  "toISOString (- 8640000000000000) = Inr ''-271821-04-20T00:00:00.000Z''"
  "toISOString 8640000000000001 = Inl RangeError"
  by (simp_all add: toISOString_def civil_from_days_known year_string_def digits_numeral Let_def)

lemma civil_19675: "civil_from_days 19675 = (2023, 11, 14)"
  unfolding civil_from_days_def by (simp only: Let_def) simp

lemma toISOString_example: "toISOString 1700000000000 = Inr ''2023-11-14T22:13:20.000Z''"
  by (simp add: toISOString_def civil_19675 year_string_def digits_numeral Let_def)

subsection \<open>Facts about the example inputs\<close>

lemma cfg_env_ok:
  "\<not> falsy (owner env_ok)" "\<not> falsy (repo env_ok)" "\<not> falsy (githubToken env_ok)"
  "\<not> falsy (BASE_URL env_ok)"
  by (simp_all add: falsy_def owner_def repo_def githubToken_def env_ok_def)

lemma cfg_env_no_base:
  "\<not> falsy (owner env_no_base)" "\<not> falsy (repo env_no_base)"
  "\<not> falsy (githubToken env_no_base)" "BASE_URL env_no_base = None"
  by (simp_all add: falsy_def owner_def repo_def githubToken_def env_ok_def env_no_base_def)

lemma since_world_ok: "getISOTimeFiveMinutesAgo world_ok = Inr ''2023-11-14T22:13:20.000Z''"
  by (simp add: getISOTimeFiveMinutesAgo_def world_ok_def toISOString_example)

lemma since_like_world_ok:
  "Date_now w = Date_now world_ok \<Longrightarrow>
   getISOTimeFiveMinutesAgo w = Inr ''2023-11-14T22:13:20.000Z''"
  using since_world_ok by (simp add: getISOTimeFiveMinutesAgo_def)

lemma push_header: "headers_get (event_request (Some ''push'')) ''X-GitHub-Event'' = Some ''push''"
  by (simp add: event_request_def)

lemma getBranch_header:
  "headers_get (event_request (Some ''getBranch'')) ''X-GitHub-Event'' = Some ''getBranch''"
  by (simp add: event_request_def)

lemma world_ok_commits:
  "github_commits world_ok (commitListRequest e since) = Inr [CommitStub ''a1'', CommitStub ''b2'']"
  by (simp add: world_ok_def)

lemma world_ok_branches:
  "github_branches world_ok (branchesRequest e) = Inr [Branch ''main'', Branch ''dev'']"
  by (simp add: world_ok_def)

lemma world_ok_notion: "notion world_ok rq = Inr (Obj [(''ok'', Bool True)])"
  by (simp add: world_ok_def)

lemma commitDetailRequest_env_ok:
  "req_url (commitDetailRequest env_ok (CommitStub ''a1''))
     = ''https://api.github.com/repos/octo/calendar/commits/a1''"
  "req_url (commitDetailRequest env_ok (CommitStub ''b2''))
     = ''https://api.github.com/repos/octo/calendar/commits/b2''"
  by (simp_all add: commitDetailRequest_def env_ok_def owner_def repo_def template_def)

lemma commitDetailRequest_zz:
  "req_url (commitDetailRequest env_ok (CommitStub ''zz''))
     = ''https://api.github.com/repos/octo/calendar/commits/zz''"
  by (simp add: commitDetailRequest_def env_ok_def owner_def repo_def template_def)

lemma world_ok_details:
  "\<forall>c \<in> set [CommitStub ''a1'', CommitStub ''b2''].
     github_commit world_ok (commitDetailRequest env_ok c) = Inr (details_ok c)"
  by (simp add: world_ok_def commitDetailRequest_env_ok details_ok_def)

lemma world_detail_missing_fetches:
  "github_commit world_detail_missing (commitDetailRequest env_ok (CommitStub ''a1'')) = Inr detail_a1"
  "github_commit world_detail_missing (commitDetailRequest env_ok (CommitStub ''zz'')) = Inl not_found"
  "github_commit world_detail_missing (commitDetailRequest env_ok (CommitStub ''b2'')) = Inr detail_b2"
  by (simp_all add: world_detail_missing_def world_ok_def commitDetailRequest_env_ok
      commitDetailRequest_zz)

lemma getCommit_example:
  assumes "Date_now w = Date_now world_ok"
    and "github_commits w = github_commits world_ok"
    and "github_commit w = github_commit world_ok"
  shows "getCommit env_ok w True state0 =
     (Inr (Arr [formatCommit detail_a1, formatCommit detail_b2]),
      \<lparr>trace = [commitListRequest env_ok ''2023-11-14T22:13:20.000Z'',
                commitDetailRequest env_ok (CommitStub ''a1''),
                commitDetailRequest env_ok (CommitStub ''b2'')],
       console = []\<rparr>)"
proof -
  have "getCommit env_ok w True state0 =
     (Inr (Arr (map (\<lambda>c. formatCommit (details_ok c)) [CommitStub ''a1'', CommitStub ''b2''])),
      state0\<lparr>trace := trace state0 @ commitListRequest env_ok ''2023-11-14T22:13:20.000Z''
                  # map (commitDetailRequest env_ok) [CommitStub ''a1'', CommitStub ''b2'']\<rparr>)"
  proof (rule getCommit_details_ok)
    show "getISOTimeFiveMinutesAgo w = Inr ''2023-11-14T22:13:20.000Z''"
      by (rule since_like_world_ok[OF assms(1)])
    show "github_commits w (commitListRequest env_ok ''2023-11-14T22:13:20.000Z'')
        = Inr [CommitStub ''a1'', CommitStub ''b2'']"
      by (simp add: assms(2) world_ok_commits)
    show "\<forall>c\<in>set [CommitStub ''a1'', CommitStub ''b2''].
       github_commit w (commitDetailRequest env_ok c) = Inr (details_ok c)"
      using world_ok_details by (simp add: assms(3))
  qed
  then show ?thesis by (simp add: details_ok_def state0_def)
qed

lemma requests_env_no_base:
  "commitListRequest env_no_base = commitListRequest env_ok"
  "commitDetailRequest env_no_base = commitDetailRequest env_ok"
  "branchesRequest env_no_base = branchesRequest env_ok"
  by (simp_all add: fun_eq_iff commitListRequest_def commitDetailRequest_def branchesRequest_def
      authorization_def owner_def repo_def githubToken_def env_no_base_def)

lemma fetchDetail_env_no_base: "fetchDetail env_no_base w = fetchDetail env_ok w"
  by (simp add: fun_eq_iff fetchDetail_def requests_env_no_base)

lemma getCommit_env_no_base:
  "getCommit env_no_base w includeDetails st = getCommit env_ok w includeDetails st"
  unfolding getCommit_def fetchDetail_env_no_base requests_env_no_base by (rule refl)

lemma POST_empty_BASE_URL_forwards:
  "falsy (BASE_URL (env_ok\<lparr>BASE_URL := Some []\<rparr>))
   \<and> POST (env_ok\<lparr>BASE_URL := Some []\<rparr>) world_ok (event_request (Some ''ping'')) state0 =
       (Inr (NextResponse (Obj [(''message'', Str ''Event not supported'')]) 400), state0)"
  by (simp add: POST_def falsy_def owner_def repo_def githubToken_def env_ok_def
      notionUpdateApiUrl_def event_request_def NextResponse_json_literal)

section \<open>Properties of the specification\<close>

text \<open>
  C1. The specification asks that, whenever one of the four configuration values is
  missing or empty, POST answers 500 with
  \<^verbatim>\<open>{error: "Environment variables not set correctly."}\<close> and makes no outbound call.
  For owner, repository name and token the gate does this (lemma \<open>POST_misconfigured\<close>).
  For the base URL it does not: the gate tests the interpolated \<open>notionUpdateApiUrl\<close>,
  which is never empty (lemma \<open>notionUpdateApiUrl_nonempty\<close>). The theorem runs the
  handler on a \<^verbatim>\<open>push\<close> event with \<^verbatim>\<open>BASE_URL\<close> unset and the other three values set:
  it lists the commits, fetches both details, posts them to
  \<^verbatim>\<open>undefined/api/updatenotioncalendar\<close> and answers 200.
\<close>

theorem POST_without_BASE_URL_forwards:
  "BASE_URL env_no_base = None
   \<and> \<not> falsy (owner env_no_base) \<and> \<not> falsy (repo env_no_base)
   \<and> \<not> falsy (githubToken env_no_base)
   \<and> POST env_no_base world_ok (event_request (Some ''push'')) state0 =
     (Inr (NextResponse
             (Obj [(''message'', Str ''Commits processed and sent to Notion API''),
                   (''notionResponse'', Obj [(''ok'', Bool True)]),
                   (''commits'', Arr [formatCommit detail_a1, formatCommit detail_b2])]) 200),
      \<lparr>trace = [commitListRequest env_ok ''2023-11-14T22:13:20.000Z'',
                commitDetailRequest env_ok (CommitStub ''a1''),
                commitDetailRequest env_ok (CommitStub ''b2''),
                \<lparr>req_verb = POST_verb,
                 req_url = ''undefined/api/updatenotioncalendar'',
                 req_headers = [(''Content-Type'', ''application/json'')],
                 req_params = [],
                 req_body = Some (Arr [formatCommit detail_a1, formatCommit detail_b2])\<rparr>],
       console = []\<rparr>)"
proof -
  have g: "getCommit env_no_base world_ok True state0 =
     (Inr (Arr [formatCommit detail_a1, formatCommit detail_b2]),
      \<lparr>trace = [commitListRequest env_ok ''2023-11-14T22:13:20.000Z'',
                commitDetailRequest env_ok (CommitStub ''a1''),
                commitDetailRequest env_ok (CommitStub ''b2'')],
       console = []\<rparr>)"
    unfolding getCommit_env_no_base by (rule getCommit_example) simp_all
  have u: "notionUpdateApiUrl env_no_base = ''undefined/api/updatenotioncalendar''"
    by (simp add: notionUpdateApiUrl_def template_def env_no_base_def)
  have "POST env_no_base world_ok (event_request (Some ''push'')) state0 =
     (Inr (NextResponse
             (Obj [(''message'', Str ''Commits processed and sent to Notion API''),
                   (''notionResponse'', Obj [(''ok'', Bool True)]),
                   (''commits'', Arr [formatCommit detail_a1, formatCommit detail_b2])]) 200),
      \<lparr>trace = [commitListRequest env_ok ''2023-11-14T22:13:20.000Z'',
                commitDetailRequest env_ok (CommitStub ''a1''),
                commitDetailRequest env_ok (CommitStub ''b2''),
                \<lparr>req_verb = POST_verb,
                 req_url = ''undefined/api/updatenotioncalendar'',
                 req_headers = [(''Content-Type'', ''application/json'')],
                 req_params = [],
                 req_body = Some (Arr [formatCommit detail_a1, formatCommit detail_b2])\<rparr>],
       console = []\<rparr>)"
    by (simp add: POST_push[OF cfg_env_no_base(1-3) push_header g] updateCommit_def
        notionRequest_def u issue_def world_ok_notion NextResponse_json_literal)
  then show ?thesis using cfg_env_no_base by simp
qed

text \<open>
  C2. When \<^verbatim>\<open>BASE_URL\<close> is unset and owner, repository name and token are set, the
  request is not rejected as misconfigured. The downstream URL is interpolated before the
  presence check, which makes it the non-empty text
  \<^verbatim>\<open>undefined/api/updatenotioncalendar\<close>; so the outcome of POST is never the short-circuit
  (the misconfiguration response with no outbound call), and on a \<^verbatim>\<open>push\<close> or
  \<^verbatim>\<open>getBranch\<close> event the handler goes on to issue the commit-list call.
\<close>

theorem missing_BASE_URL_passes_gate:
  assumes "BASE_URL e = None"
    and "\<not> falsy (owner e)" "\<not> falsy (repo e)" "\<not> falsy (githubToken e)"
  shows "notionUpdateApiUrl e = ''undefined/api/updatenotioncalendar''
    \<and> POST e w req st \<noteq>
        (Inr (NextResponse
                (Obj [(''error'', Str ''Environment variables not set correctly.'')]) 500), st)
    \<and> (\<forall>since.
          (headers_get req ''X-GitHub-Event'' = Some ''push''
           \<or> headers_get req ''X-GitHub-Event'' = Some ''getBranch'')
          \<and> getISOTimeFiveMinutesAgo w = Inr since
          \<longrightarrow> (\<exists>rest. trace (snd (POST e w req st))
                        = trace st @ commitListRequest e since # rest))"
proof (intro conjI allI impI)
  show "notionUpdateApiUrl e = ''undefined/api/updatenotioncalendar''"
    using assms(1) by (simp add: notionUpdateApiUrl_def template_def)
  show "POST e w req st \<noteq>
        (Inr (NextResponse
                (Obj [(''error'', Str ''Environment variables not set correctly.'')]) 500), st)"
    by (rule POST_not_short_circuit[OF assms(2-4)])
next
  fix since
  assume "(headers_get req ''X-GitHub-Event'' = Some ''push''
           \<or> headers_get req ''X-GitHub-Event'' = Some ''getBranch'')
          \<and> getISOTimeFiveMinutesAgo w = Inr since"
  then show "\<exists>rest. trace (snd (POST e w req st)) = trace st @ commitListRequest e since # rest"
    using POST_first_call[OF assms(2-4)] by blast
qed

theorem missing_BASE_URL_passes_gate_witness:
  "notionUpdateApiUrl env_no_base = ''undefined/api/updatenotioncalendar''
   \<and> POST env_no_base world_ok (event_request (Some ''push'')) state0 \<noteq>
        (Inr (NextResponse
                (Obj [(''error'', Str ''Environment variables not set correctly.'')]) 500), state0)
   \<and> (\<exists>rest. trace (snd (POST env_no_base world_ok (event_request (Some ''push'')) state0))
         = trace state0 @ commitListRequest env_no_base ''2023-11-14T22:13:20.000Z'' # rest)"
  using missing_BASE_URL_passes_gate[OF cfg_env_no_base(4) cfg_env_no_base(1-3),
      of world_ok "event_request (Some ''push'')" state0] push_header since_world_ok
  by blast

text \<open>
  C3. On a \<^verbatim>\<open>push\<close> event, when the commit-list call returns the stubs \<open>commits\<close> and
  every per-SHA detail fetch succeeds (the fetch for stub \<open>c\<close> answering \<open>details c\<close>), the
  forwarder is given exactly \<open>length commits\<close> objects, the i-th of them the formatted
  detail of the i-th stub, whatever the order \<open>order\<close> in which the concurrent fetches
  settle. The detail calls are issued in list order and the payload is the body of the
  one POST to the Notion updater.
\<close>

theorem push_forwards_details_in_order:
  assumes "\<not> falsy (owner e)" "\<not> falsy (repo e)" "\<not> falsy (githubToken e)"
    and "headers_get req ''X-GitHub-Event'' = Some ''push''"
    and "getISOTimeFiveMinutesAgo w = Inr since"
    and "github_commits w (commitListRequest e since) = Inr commits"
    and "\<forall>c \<in> set commits. github_commit w (commitDetailRequest e c) = Inr (details c)"
  shows "let forwarded = map (\<lambda>c. formatCommit (details c)) commits in
           length forwarded = length commits
         \<and> (\<forall>i < length commits. forwarded ! i = formatCommit (details (commits ! i)))
         \<and> getCommit e (w\<lparr>completion := order\<rparr>) True st =
             (Inr (Arr forwarded),
              st\<lparr>trace := trace st @ commitListRequest e since
                                # map (commitDetailRequest e) commits\<rparr>)
         \<and> trace (snd (POST e (w\<lparr>completion := order\<rparr>) req st)) =
             trace st @ commitListRequest e since # map (commitDetailRequest e) commits
               @ [notionRequest e (Arr forwarded)]
         \<and> req_body (notionRequest e (Arr forwarded)) = Some (Arr forwarded)"
proof -
  let ?w = "w\<lparr>completion := order\<rparr>"
  let ?forwarded = "map (\<lambda>c. formatCommit (details c)) commits"
  let ?st1 = "st\<lparr>trace := trace st @ commitListRequest e since
                                # map (commitDetailRequest e) commits\<rparr>"
  have g: "getCommit e ?w True st = (Inr (Arr ?forwarded), ?st1)"
    using assms(5-7)
    by (intro getCommit_details_ok) (simp_all add: getISOTimeFiveMinutesAgo_completion)
  have "POST e ?w req st =
      (fst (updateCommit e ?w (Arr ?forwarded) ?st1),
       issue (notionRequest e (Arr ?forwarded)) ?st1)"
    by (rule POST_push[OF assms(1-4) g])
  then have t: "trace (snd (POST e ?w req st)) =
      trace st @ commitListRequest e since # map (commitDetailRequest e) commits
        @ [notionRequest e (Arr ?forwarded)]"
    by (simp add: trace_issue)
  have b: "req_body (notionRequest e (Arr ?forwarded)) = Some (Arr ?forwarded)"
    by (simp add: notionRequest_def)
  show ?thesis using g t b by (simp add: Let_def)
qed

theorem push_forwards_details_in_order_witness:
  "trace (snd (POST env_ok (world_ok\<lparr>completion := [1, 0]\<rparr>) (event_request (Some ''push'')) state0))
     = [commitListRequest env_ok ''2023-11-14T22:13:20.000Z'',
        commitDetailRequest env_ok (CommitStub ''a1''),
        commitDetailRequest env_ok (CommitStub ''b2''),
        notionRequest env_ok (Arr [formatCommit detail_a1, formatCommit detail_b2])]
   \<and> trace (snd (POST env_ok (world_ok\<lparr>completion := [0, 1]\<rparr>) (event_request (Some ''push'')) state0))
     = [commitListRequest env_ok ''2023-11-14T22:13:20.000Z'',
        commitDetailRequest env_ok (CommitStub ''a1''),
        commitDetailRequest env_ok (CommitStub ''b2''),
        notionRequest env_ok (Arr [formatCommit detail_a1, formatCommit detail_b2])]"
proof -
  note r = push_forwards_details_in_order[OF cfg_env_ok(1-3) push_header since_world_ok
      world_ok_commits world_ok_details, of _ state0]
  show ?thesis
    using r[of "[1, 0]"] r[of "[0, 1]"]
    by (simp add: Let_def details_ok_def state0_def)
qed

text \<open>
  C4. On a \<^verbatim>\<open>push\<close> event a failing fetch is fatal and is not caught by the dispatcher.
  When the commit-list call is rejected with \<open>err\<close>, POST itself is rejected with \<open>err\<close>
  (the result is \<open>Inl err\<close>, not a response). When the list arrives and at least one
  per-commit detail fetch is rejected, getCommit yields no list at all: it is rejected with
  the error of one of the failing fetches, POST is rejected with the same error, and the
  trace ends with the detail calls, so nothing is forwarded to the Notion updater. In both
  cases the error is logged once by the \<^verbatim>\<open>catch\<close> block of getCommit and thrown again.
\<close>

theorem push_fetch_failure_is_unhandled:
  assumes "\<not> falsy (owner e)" "\<not> falsy (repo e)" "\<not> falsy (githubToken e)"
    and "headers_get req ''X-GitHub-Event'' = Some ''push''"
    and "getISOTimeFiveMinutesAgo w = Inr since"
  shows "(\<forall>err. github_commits w (commitListRequest e since) = Inl err \<longrightarrow>
            POST e w req st =
              (Inl err, console_error err (issue (commitListRequest e since) st)))
       \<and> (\<forall>commits.
            github_commits w (commitListRequest e since) = Inr commits
            \<and> (\<exists>c \<in> set commits. isl (github_commit w (commitDetailRequest e c)))
            \<longrightarrow> (\<exists>c \<in> set commits. \<exists>err.
                    github_commit w (commitDetailRequest e c) = Inl err
                  \<and> fst (getCommit e w True st) = Inl err
                  \<and> POST e w req st =
                      (Inl err, console_error err
                         (st\<lparr>trace := trace st @ commitListRequest e since
                                           # map (commitDetailRequest e) commits\<rparr>))))"
proof (intro conjI allI impI)
  fix err
  assume "github_commits w (commitListRequest e since) = Inl err"
  then show "POST e w req st =
      (Inl err, console_error err (issue (commitListRequest e since) st))"
    using getCommit_list_rejected[OF assms(5)] POST_push_rejected[OF assms(1-4)] by blast
next
  fix commits
  assume a: "github_commits w (commitListRequest e since) = Inr commits
            \<and> (\<exists>c \<in> set commits. isl (github_commit w (commitDetailRequest e c)))"
  then obtain c0 where c0: "c0 \<in> set commits" "isl (github_commit w (commitDetailRequest e c0))"
    by blast
  from getCommit_detail_rejected[OF assms(5) conjunct1[OF a] c0, of st]
  obtain c err where ce: "c \<in> set commits"
    "github_commit w (commitDetailRequest e c) = Inl err"
    "getCommit e w True st =
       (Inl err, console_error err
          (st\<lparr>trace := trace st @ commitListRequest e since
                            # map (commitDetailRequest e) commits\<rparr>))"
    by blast
  from POST_push_rejected[OF assms(1-4) ce(3)] ce
  show "\<exists>c \<in> set commits. \<exists>err.
          github_commit w (commitDetailRequest e c) = Inl err
        \<and> fst (getCommit e w True st) = Inl err
        \<and> POST e w req st =
            (Inl err, console_error err
               (st\<lparr>trace := trace st @ commitListRequest e since
                                 # map (commitDetailRequest e) commits\<rparr>))"
    by auto
qed

theorem push_fetch_failure_is_unhandled_witness:
  "POST env_ok world_list_down (event_request (Some ''push'')) state0 =
     (Inl (AxiosError None),
      \<lparr>trace = [commitListRequest env_ok ''2023-11-14T22:13:20.000Z''],
       console = [AxiosError None]\<rparr>)
   \<and> POST env_ok world_detail_missing (event_request (Some ''push'')) state0 =
     (Inl not_found,
      \<lparr>trace = [commitListRequest env_ok ''2023-11-14T22:13:20.000Z'',
                commitDetailRequest env_ok (CommitStub ''a1''),
                commitDetailRequest env_ok (CommitStub ''zz''),
                commitDetailRequest env_ok (CommitStub ''b2'')],
       console = [not_found]\<rparr>)"
proof -
  have s1: "getISOTimeFiveMinutesAgo world_list_down = Inr ''2023-11-14T22:13:20.000Z''"
    by (rule since_like_world_ok) (simp add: world_list_down_def)
  have s2: "getISOTimeFiveMinutesAgo world_detail_missing = Inr ''2023-11-14T22:13:20.000Z''"
    by (rule since_like_world_ok) (simp add: world_detail_missing_def)
  have l1: "github_commits world_list_down
      (commitListRequest env_ok ''2023-11-14T22:13:20.000Z'') = Inl (AxiosError None)"
    by (simp add: world_list_down_def)
  have l2: "github_commits world_detail_missing
      (commitListRequest env_ok ''2023-11-14T22:13:20.000Z'')
        = Inr [CommitStub ''a1'', CommitStub ''zz'', CommitStub ''b2'']"
    by (simp add: world_detail_missing_def)
  have a: "POST env_ok world_list_down (event_request (Some ''push'')) state0 =
     (Inl (AxiosError None),
      \<lparr>trace = [commitListRequest env_ok ''2023-11-14T22:13:20.000Z''],
       console = [AxiosError None]\<rparr>)"
    using push_fetch_failure_is_unhandled[OF cfg_env_ok(1-3) push_header s1, of state0] l1
    by (simp add: console_error_def issue_def state0_def)
  have b: "POST env_ok world_detail_missing (event_request (Some ''push'')) state0 =
     (Inl not_found,
      \<lparr>trace = [commitListRequest env_ok ''2023-11-14T22:13:20.000Z'',
                commitDetailRequest env_ok (CommitStub ''a1''),
                commitDetailRequest env_ok (CommitStub ''zz''),
                commitDetailRequest env_ok (CommitStub ''b2'')],
       console = [not_found]\<rparr>)"
    using push_fetch_failure_is_unhandled[OF cfg_env_ok(1-3) push_header s2, of state0] l2
    by (auto simp: world_detail_missing_fetches console_error_def state0_def)
  show ?thesis using a b by simp
qed

text \<open>
  C5. On a \<^verbatim>\<open>push\<close> event whose fetch succeeded with \<open>commitDetails\<close>: when the call
  to the Notion updater is rejected by an axios error that carries an HTTP response, and
  the status of that response is one that \<^verbatim>\<open>NextResponse.json\<close> accepts together with a
  body (200 to 599, other than 204, 205 and 304), the handler answers with that status
  code and the body \<^verbatim>\<open>{error: <its status text>}\<close>; when the call is rejected in any other
  way (no response received, or a value that is not an axios error), the handler answers
  500 with the body \<^verbatim>\<open>{error: "Internal Server Error"}\<close>. The witness has a downstream 429
  "Too Many Requests" and an unreachable downstream.

  Without the condition on the status the statement fails: for a downstream 304 or 600
  the call of \<^verbatim>\<open>NextResponse.json\<close> in the \<^verbatim>\<open>catch\<close> block throws, and POST is rejected with
  a \<^verbatim>\<open>TypeError\<close> or a \<^verbatim>\<open>RangeError\<close> instead of answering. The counterexample runs both.
\<close>

theorem forward_failure_response:
  assumes "\<not> falsy (owner e)" "\<not> falsy (repo e)" "\<not> falsy (githubToken e)"
    and "headers_get req ''X-GitHub-Event'' = Some ''push''"
    and "getCommit e w True st = (Inr commitDetails, st1)"
  shows "(\<forall>response.
            notion w (notionRequest e commitDetails) = Inl (AxiosError (Some response))
            \<and> 200 \<le> status response \<and> status response \<le> 599
            \<and> status response \<noteq> 204 \<and> status response \<noteq> 205 \<and> status response \<noteq> 304
            \<longrightarrow>
            POST e w req st =
              (Inr (NextResponse (Obj [(''error'', Str (statusText response))])
                      (status response)),
               issue (notionRequest e commitDetails) st1))
       \<and> (\<forall>err.
            notion w (notionRequest e commitDetails) = Inl err
            \<and> (\<forall>response. err \<noteq> AxiosError (Some response)) \<longrightarrow>
            POST e w req st =
              (Inr (NextResponse (Obj [(''error'', Str ''Internal Server Error'')]) 500),
               issue (notionRequest e commitDetails) st1))"
proof (intro conjI allI impI)
  fix response
  assume a: "notion w (notionRequest e commitDetails) = Inl (AxiosError (Some response))
            \<and> 200 \<le> status response \<and> status response \<le> 599
            \<and> status response \<noteq> 204 \<and> status response \<noteq> 205 \<and> status response \<noteq> 304"
  then have "updateCommit_catch (AxiosError (Some response)) =
      Inr (NextResponse (Obj [(''error'', Str (statusText response))]) (status response))"
    by (simp add: updateCommit_catch_def NextResponse_json_accepts)
  then show "POST e w req st =
      (Inr (NextResponse (Obj [(''error'', Str (statusText response))]) (status response)),
       issue (notionRequest e commitDetails) st1)"
    using a by (simp add: POST_push[OF assms] updateCommit_def)
next
  fix err
  assume a: "notion w (notionRequest e commitDetails) = Inl err
            \<and> (\<forall>response. err \<noteq> AxiosError (Some response))"
  then have "updateCommit_catch err =
      Inr (NextResponse (Obj [(''error'', Str ''Internal Server Error'')]) 500)"
    by (cases err)
      (auto simp: updateCommit_catch_def NextResponse_json_literal split: option.splits)
  then show "POST e w req st =
      (Inr (NextResponse (Obj [(''error'', Str ''Internal Server Error'')]) 500),
       issue (notionRequest e commitDetails) st1)"
    using a by (simp add: POST_push[OF assms] updateCommit_def)
qed

theorem forward_failure_response_witness:
  "fst (POST env_ok world_rate_limited (event_request (Some ''push'')) state0) =
     Inr (NextResponse (Obj [(''error'', Str ''Too Many Requests'')]) 429)
   \<and> fst (POST env_ok world_notion_unreachable (event_request (Some ''push'')) state0) =
     Inr (NextResponse (Obj [(''error'', Str ''Internal Server Error'')]) 500)"
proof -
  have g1: "getCommit env_ok world_rate_limited True state0 =
     (Inr (Arr [formatCommit detail_a1, formatCommit detail_b2]),
      \<lparr>trace = [commitListRequest env_ok ''2023-11-14T22:13:20.000Z'',
                commitDetailRequest env_ok (CommitStub ''a1''),
                commitDetailRequest env_ok (CommitStub ''b2'')],
       console = []\<rparr>)"
    by (rule getCommit_example) (simp_all add: world_rate_limited_def)
  have g2: "getCommit env_ok world_notion_unreachable True state0 =
     (Inr (Arr [formatCommit detail_a1, formatCommit detail_b2]),
      \<lparr>trace = [commitListRequest env_ok ''2023-11-14T22:13:20.000Z'',
                commitDetailRequest env_ok (CommitStub ''a1''),
                commitDetailRequest env_ok (CommitStub ''b2'')],
       console = []\<rparr>)"
    by (rule getCommit_example) (simp_all add: world_notion_unreachable_def)
  have a: "fst (POST env_ok world_rate_limited (event_request (Some ''push'')) state0) =
     Inr (NextResponse (Obj [(''error'', Str ''Too Many Requests'')]) 429)"
    using forward_failure_response[OF cfg_env_ok(1-3) push_header g1]
    by (simp add: world_rate_limited_def too_many_def)
  have b: "fst (POST env_ok world_notion_unreachable (event_request (Some ''push'')) state0) =
     Inr (NextResponse (Obj [(''error'', Str ''Internal Server Error'')]) 500)"
    using forward_failure_response[OF cfg_env_ok(1-3) push_header g2]
    by (simp add: world_notion_unreachable_def)
  show ?thesis using a b by simp
qed

theorem forward_failure_response_counterexample:
  "notion world_not_modified
       (notionRequest env_ok (Arr [formatCommit detail_a1, formatCommit detail_b2]))
     = Inl (AxiosError (Some \<lparr>status = 304, statusText = ''Not Modified''\<rparr>))
   \<and> POST env_ok world_not_modified (event_request (Some ''push'')) state0 =
       (Inl TypeError,
        \<lparr>trace = [commitListRequest env_ok ''2023-11-14T22:13:20.000Z'',
                  commitDetailRequest env_ok (CommitStub ''a1''),
                  commitDetailRequest env_ok (CommitStub ''b2''),
                  notionRequest env_ok (Arr [formatCommit detail_a1, formatCommit detail_b2])],
         console = []\<rparr>)
   \<and> fst (POST env_ok world_not_modified (event_request (Some ''push'')) state0) \<noteq>
       Inr (NextResponse (Obj [(''error'', Str ''Not Modified'')]) 304)
   \<and> notion world_status_600
       (notionRequest env_ok (Arr [formatCommit detail_a1, formatCommit detail_b2]))
     = Inl (AxiosError (Some \<lparr>status = 600, statusText = ''Unknown''\<rparr>))
   \<and> POST env_ok world_status_600 (event_request (Some ''push'')) state0 =
       (Inl RangeError,
        \<lparr>trace = [commitListRequest env_ok ''2023-11-14T22:13:20.000Z'',
                  commitDetailRequest env_ok (CommitStub ''a1''),
                  commitDetailRequest env_ok (CommitStub ''b2''),
                  notionRequest env_ok (Arr [formatCommit detail_a1, formatCommit detail_b2])],
         console = []\<rparr>)
   \<and> fst (POST env_ok world_status_600 (event_request (Some ''push'')) state0) \<noteq>
       Inr (NextResponse (Obj [(''error'', Str ''Unknown'')]) 600)"
proof -
  have g1: "getCommit env_ok world_not_modified True state0 =
     (Inr (Arr [formatCommit detail_a1, formatCommit detail_b2]),
      \<lparr>trace = [commitListRequest env_ok ''2023-11-14T22:13:20.000Z'',
                commitDetailRequest env_ok (CommitStub ''a1''),
                commitDetailRequest env_ok (CommitStub ''b2'')],
       console = []\<rparr>)"
    by (rule getCommit_example) (simp_all add: world_not_modified_def)
  have g2: "getCommit env_ok world_status_600 True state0 =
     (Inr (Arr [formatCommit detail_a1, formatCommit detail_b2]),
      \<lparr>trace = [commitListRequest env_ok ''2023-11-14T22:13:20.000Z'',
                commitDetailRequest env_ok (CommitStub ''a1''),
                commitDetailRequest env_ok (CommitStub ''b2'')],
       console = []\<rparr>)"
    by (rule getCommit_example) (simp_all add: world_status_600_def)
  have n1: "notion world_not_modified rq
      = Inl (AxiosError (Some \<lparr>status = 304, statusText = ''Not Modified''\<rparr>))" for rq
    by (simp add: world_not_modified_def)
  have n2: "notion world_status_600 rq
      = Inl (AxiosError (Some \<lparr>status = 600, statusText = ''Unknown''\<rparr>))" for rq
    by (simp add: world_status_600_def)
  have p1: "POST env_ok world_not_modified (event_request (Some ''push'')) state0 =
       (Inl TypeError,
        \<lparr>trace = [commitListRequest env_ok ''2023-11-14T22:13:20.000Z'',
                  commitDetailRequest env_ok (CommitStub ''a1''),
                  commitDetailRequest env_ok (CommitStub ''b2''),
                  notionRequest env_ok (Arr [formatCommit detail_a1, formatCommit detail_b2])],
         console = []\<rparr>)"
    by (simp add: POST_push[OF cfg_env_ok(1-3) push_header g1] updateCommit_def n1
        updateCommit_catch_def NextResponse_json_def issue_def)
  have p2: "POST env_ok world_status_600 (event_request (Some ''push'')) state0 =
       (Inl RangeError,
        \<lparr>trace = [commitListRequest env_ok ''2023-11-14T22:13:20.000Z'',
                  commitDetailRequest env_ok (CommitStub ''a1''),
                  commitDetailRequest env_ok (CommitStub ''b2''),
                  notionRequest env_ok (Arr [formatCommit detail_a1, formatCommit detail_b2])],
         console = []\<rparr>)"
    by (simp add: POST_push[OF cfg_env_ok(1-3) push_header g2] updateCommit_def n2
        updateCommit_catch_def NextResponse_json_def issue_def)
  show ?thesis using p1 p2 n1 n2 by simp
qed

text \<open>
  C6. On a \<^verbatim>\<open>getBranch\<close> event whose two upstream calls succeed, the handler answers 200
  with the body \<^verbatim>\<open>{branches: [...]}\<close> holding the names of the branches the upstream
  returned, in the upstream's order. The calls it makes are exactly the commit-list GET and
  the branches GET; the forwarder's request is a POST, so the forwarder was not invoked.
\<close>

theorem getBranch_lists_branches:
  assumes "\<not> falsy (owner e)" "\<not> falsy (repo e)" "\<not> falsy (githubToken e)"
    and "headers_get req ''X-GitHub-Event'' = Some ''getBranch''"
    and "getISOTimeFiveMinutesAgo w = Inr since"
    and "github_commits w (commitListRequest e since) = Inr commits"
    and "github_branches w (branchesRequest e) = Inr bs"
  shows "POST e w req st =
           (Inr (NextResponse
                   (Obj [(''branches'', Arr (map (\<lambda>b. Str (branch_name b)) bs))]) 200),
            st\<lparr>trace := trace st @ [commitListRequest e since, branchesRequest e]\<rparr>)
       \<and> req_verb (commitListRequest e since) = GET
       \<and> req_verb (branchesRequest e) = GET
       \<and> req_verb (notionRequest e payload) = POST_verb"
  using assms(4,7)
  by (simp add: POST_configured[OF assms(1-3)] getCommit_branches[OF assms(5,6)]
      commitListRequest_def branchesRequest_def notionRequest_def)

theorem getBranch_lists_branches_witness:
  "POST env_ok world_ok (event_request (Some ''getBranch'')) state0 =
     (Inr (NextResponse (Obj [(''branches'', Arr [Str ''main'', Str ''dev''])]) 200),
      \<lparr>trace = [commitListRequest env_ok ''2023-11-14T22:13:20.000Z'', branchesRequest env_ok],
       console = []\<rparr>)"
  using getBranch_lists_branches[OF cfg_env_ok(1-3) getBranch_header since_world_ok
      world_ok_commits world_ok_branches, of state0]
  by (simp add: state0_def)

text \<open>
  C7. On a \<^verbatim>\<open>push\<close> event whose fetch succeeded with \<open>commitDetails\<close> and whose
  forwarding call succeeded with the downstream body \<open>data\<close>, the handler answers 200 with
  the body \<^verbatim>\<open>{message, notionResponse, commits}\<close>: the confirmation text, \<open>data\<close> as
  received, and \<open>commitDetails\<close> itself, which is also the body that was posted.
\<close>

theorem push_success_response:
  assumes "\<not> falsy (owner e)" "\<not> falsy (repo e)" "\<not> falsy (githubToken e)"
    and "headers_get req ''X-GitHub-Event'' = Some ''push''"
    and "getCommit e w True st = (Inr commitDetails, st1)"
    and "notion w (notionRequest e commitDetails) = Inr data"
  shows "POST e w req st =
           (Inr (NextResponse
                   (Obj [(''message'', Str ''Commits processed and sent to Notion API''),
                         (''notionResponse'', data),
                         (''commits'', commitDetails)]) 200),
            issue (notionRequest e commitDetails) st1)
       \<and> req_body (notionRequest e commitDetails) = Some commitDetails"
  using assms(6)
  by (simp add: POST_push[OF assms(1-5)] updateCommit_def notionRequest_def
      NextResponse_json_literal)

theorem push_success_response_witness:
  "POST env_ok world_ok (event_request (Some ''push'')) state0 =
     (Inr (NextResponse
             (Obj [(''message'', Str ''Commits processed and sent to Notion API''),
                   (''notionResponse'', Obj [(''ok'', Bool True)]),
                   (''commits'', Arr [formatCommit detail_a1, formatCommit detail_b2])]) 200),
      \<lparr>trace = [commitListRequest env_ok ''2023-11-14T22:13:20.000Z'',
                commitDetailRequest env_ok (CommitStub ''a1''),
                commitDetailRequest env_ok (CommitStub ''b2''),
                notionRequest env_ok (Arr [formatCommit detail_a1, formatCommit detail_b2])],
       console = []\<rparr>)"
proof -
  have g: "getCommit env_ok world_ok True state0 =
     (Inr (Arr [formatCommit detail_a1, formatCommit detail_b2]),
      \<lparr>trace = [commitListRequest env_ok ''2023-11-14T22:13:20.000Z'',
                commitDetailRequest env_ok (CommitStub ''a1''),
                commitDetailRequest env_ok (CommitStub ''b2'')],
       console = []\<rparr>)"
    by (rule getCommit_example) simp_all
  have n: "notion world_ok (notionRequest env_ok (Arr [formatCommit detail_a1, formatCommit detail_b2]))
      = Inr (Obj [(''ok'', Bool True)])"
    by (simp add: world_ok_def)
  show ?thesis
    using push_success_response[OF cfg_env_ok(1-3) push_header g n]
    by (simp add: issue_def)
qed

text \<open>
  C8. With the four configuration values present, an event header that is neither
  \<^verbatim>\<open>push\<close> nor \<^verbatim>\<open>getBranch\<close> (an empty or a missing header included) is answered with
  status 400 and the body \<^verbatim>\<open>{message: "Event not supported"}\<close>, and the state is
  returned as it was: no outbound call is made.
\<close>

theorem unsupported_event_rejected:
  assumes "\<not> falsy (owner e)" "\<not> falsy (repo e)" "\<not> falsy (githubToken e)"
    and "\<not> falsy (BASE_URL e)"
    and "headers_get req ''X-GitHub-Event'' \<noteq> Some ''push''"
    and "headers_get req ''X-GitHub-Event'' \<noteq> Some ''getBranch''"
  shows "POST e w req st =
    (Inr (NextResponse (Obj [(''message'', Str ''Event not supported'')]) 400), st)"
  using assms(5,6) by (simp add: POST_configured[OF assms(1-3)])

theorem unsupported_event_rejected_witness:
  "POST env_ok world_ok (event_request (Some ''ping'')) state0 =
     (Inr (NextResponse (Obj [(''message'', Str ''Event not supported'')]) 400), state0)
   \<and> POST env_ok world_ok (event_request (Some [])) state0 =
     (Inr (NextResponse (Obj [(''message'', Str ''Event not supported'')]) 400), state0)
   \<and> POST env_ok world_ok (event_request None) state0 =
     (Inr (NextResponse (Obj [(''message'', Str ''Event not supported'')]) 400), state0)"
proof -
  note r = unsupported_event_rejected[OF cfg_env_ok, of _ world_ok state0]
  have "POST env_ok world_ok (event_request (Some ''ping'')) state0 =
     (Inr (NextResponse (Obj [(''message'', Str ''Event not supported'')]) 400), state0)"
    by (rule r) (simp_all add: event_request_def)
  moreover have "POST env_ok world_ok (event_request (Some [])) state0 =
     (Inr (NextResponse (Obj [(''message'', Str ''Event not supported'')]) 400), state0)"
    by (rule r) (simp_all add: event_request_def)
  moreover have "POST env_ok world_ok (event_request None) state0 =
     (Inr (NextResponse (Obj [(''message'', Str ''Event not supported'')]) 400), state0)"
    by (rule r) (simp_all add: event_request_def)
  ultimately show ?thesis by simp
qed

text \<open>
  C9. In branch-only mode (\<open>includeDetails = False\<close>) the first outbound call of getCommit
  is still the commit-list call. Once that call has succeeded, the calls made are the
  commit-list call followed by the branches call, and the outcome is determined by the
  answer of the branches call alone: the list of stubs \<open>commits\<close> does not occur in it.
  The witness runs two worlds that differ only in the stubs listed and get the same
  BranchList.
\<close>

theorem branch_mode_lists_commits_first:
  assumes "getISOTimeFiveMinutesAgo w = Inr since"
  shows "(\<exists>rest. trace (snd (getCommit e w False st))
                  = trace st @ commitListRequest e since # rest)
       \<and> (\<forall>commits. github_commits w (commitListRequest e since) = Inr commits \<longrightarrow>
            getCommit e w False st =
              (case github_branches w (branchesRequest e) of
                 Inl err \<Rightarrow>
                   (Inl err, console_error err
                      (st\<lparr>trace := trace st @ [commitListRequest e since, branchesRequest e]\<rparr>))
               | Inr bs \<Rightarrow>
                   (Inr (Obj [(''branches'', Arr (map (\<lambda>b. Str (branch_name b)) bs))]),
                    st\<lparr>trace := trace st @ [commitListRequest e since, branchesRequest e]\<rparr>)))"
  using getCommit_first_call[OF assms] getCommit_branches[OF assms] by blast

theorem branch_mode_lists_commits_first_witness:
  "getCommit env_ok world_ok False state0 =
     (Inr (Obj [(''branches'', Arr [Str ''main'', Str ''dev''])]),
      \<lparr>trace = [commitListRequest env_ok ''2023-11-14T22:13:20.000Z'', branchesRequest env_ok],
       console = []\<rparr>)
   \<and> getCommit env_ok world_other_commits False state0 =
     (Inr (Obj [(''branches'', Arr [Str ''main'', Str ''dev''])]),
      \<lparr>trace = [commitListRequest env_ok ''2023-11-14T22:13:20.000Z'', branchesRequest env_ok],
       console = []\<rparr>)"
proof -
  have s: "getISOTimeFiveMinutesAgo world_other_commits = Inr ''2023-11-14T22:13:20.000Z''"
    by (rule since_like_world_ok) (simp add: world_other_commits_def)
  have l: "github_commits world_other_commits
      (commitListRequest env_ok ''2023-11-14T22:13:20.000Z'') = Inr [CommitStub ''zz'']"
    by (simp add: world_other_commits_def)
  have b: "github_branches world_other_commits (branchesRequest env_ok)
      = Inr [Branch ''main'', Branch ''dev'']"
    by (simp add: world_other_commits_def world_ok_def)
  have "getCommit env_ok world_ok False state0 =
     (Inr (Obj [(''branches'', Arr [Str ''main'', Str ''dev''])]),
      \<lparr>trace = [commitListRequest env_ok ''2023-11-14T22:13:20.000Z'', branchesRequest env_ok],
       console = []\<rparr>)"
    using branch_mode_lists_commits_first[OF since_world_ok, of env_ok state0]
      world_ok_commits[of env_ok "''2023-11-14T22:13:20.000Z''"] world_ok_branches[of env_ok]
    by (simp add: state0_def)
  moreover have "getCommit env_ok world_other_commits False state0 =
     (Inr (Obj [(''branches'', Arr [Str ''main'', Str ''dev''])]),
      \<lparr>trace = [commitListRequest env_ok ''2023-11-14T22:13:20.000Z'', branchesRequest env_ok],
       console = []\<rparr>)"
    using branch_mode_lists_commits_first[OF s, of env_ok state0] l b
    by (simp add: state0_def)
  ultimately show ?thesis by simp
qed

text \<open>
  C10. The cutoff computed by getISOTimeFiveMinutesAgo is \<^verbatim>\<open>toISOString\<close> of the clock
  reading minus exactly 300000 milliseconds. For every time value a \<^verbatim>\<open>Date\<close> can hold this
  is a string; the string is the \<^verbatim>\<open>since\<close> parameter of the commit-list call, the first
  call of every fetch, and it has the fields of \<^verbatim>\<open>YYYY-MM-DDTHH:mm:ss.sssZ\<close> (the year
  four characters wide, or seven with its sign). Were the time value out of the range of
  \<^verbatim>\<open>Date\<close>, no call would be made at all. In the witness the clock reads 1700000300000 ms,
  that is 2023-11-14 22:18:20 UTC, and the parameter sent is
  \<^verbatim>\<open>2023-11-14T22:13:20.000Z\<close>.
\<close>

theorem since_is_five_minutes_ago:
  "getISOTimeFiveMinutesAgo w = toISOString (Date_now w - 300000)
   \<and> (\<bar>Date_now w - 300000\<bar> \<le> 8640000000000000 \<longrightarrow>
         (\<exists>since. getISOTimeFiveMinutesAgo w = Inr since))
   \<and> (\<forall>since. getISOTimeFiveMinutesAgo w = Inr since \<longrightarrow>
         (\<exists>rest. trace (snd (getCommit e w includeDetails st))
                   = trace st @ commitListRequest e since # rest)
       \<and> req_params (commitListRequest e since) = [(''since'', since)]
       \<and> (\<exists>Y M D h m sec ms.
             since = Y @ ''-'' @ M @ ''-'' @ D @ ''T'' @ h @ '':'' @ m @ '':'' @ sec
                       @ ''.'' @ ms @ ''Z''
           \<and> (length Y = 4 \<or> length Y = 7)
           \<and> length M = 2 \<and> length D = 2 \<and> length h = 2 \<and> length m = 2 \<and> length sec = 2
           \<and> length ms = 3))
   \<and> (\<forall>err. getISOTimeFiveMinutesAgo w = Inl err \<longrightarrow>
         trace (snd (getCommit e w includeDetails st)) = trace st)"
proof (intro conjI allI impI)
  show eq: "getISOTimeFiveMinutesAgo w = toISOString (Date_now w - 300000)"
    by (simp add: getISOTimeFiveMinutesAgo_def)
  show "\<exists>since. getISOTimeFiveMinutesAgo w = Inr since"
    if "\<bar>Date_now w - 300000\<bar> \<le> 8640000000000000"
    using toISOString_total[OF that] eq by simp
next
  fix since
  assume a: "getISOTimeFiveMinutesAgo w = Inr since"
  then show "\<exists>rest. trace (snd (getCommit e w includeDetails st))
                   = trace st @ commitListRequest e since # rest"
    by (rule getCommit_first_call)
  show "req_params (commitListRequest e since) = [(''since'', since)]"
    by (simp add: commitListRequest_def)
  show "\<exists>Y M D h m sec ms.
          since = Y @ ''-'' @ M @ ''-'' @ D @ ''T'' @ h @ '':'' @ m @ '':'' @ sec
                    @ ''.'' @ ms @ ''Z''
        \<and> (length Y = 4 \<or> length Y = 7)
        \<and> length M = 2 \<and> length D = 2 \<and> length h = 2 \<and> length m = 2 \<and> length sec = 2
        \<and> length ms = 3"
    using a by (intro toISOString_shape[of "Date_now w - 5 * 60 * 1000"])
      (simp add: getISOTimeFiveMinutesAgo_def)
next
  fix err
  assume "getISOTimeFiveMinutesAgo w = Inl err"
  then show "trace (snd (getCommit e w includeDetails st)) = trace st"
    by (simp add: getCommit_no_clock trace_console_error)
qed

theorem since_is_five_minutes_ago_witness:
  "Date_now world_ok = 1700000300000
   \<and> getISOTimeFiveMinutesAgo world_ok = toISOString 1700000000000
   \<and> toISOString 1700000000000 = Inr ''2023-11-14T22:13:20.000Z''
   \<and> (\<exists>rest. trace (snd (getCommit env_ok world_ok True state0))
         = trace state0 @ commitListRequest env_ok ''2023-11-14T22:13:20.000Z'' # rest)
   \<and> req_params (commitListRequest env_ok ''2023-11-14T22:13:20.000Z'')
         = [(''since'', ''2023-11-14T22:13:20.000Z'')]"
proof -
  have d: "Date_now world_ok = 1700000300000" by (simp add: world_ok_def)
  show ?thesis
    using since_is_five_minutes_ago[of world_ok env_ok True state0] since_world_ok d
      toISOString_example
    by simp
qed

end
